theory Spec2Isabelle
  imports Complex_Main "HOL-Library.List_Lexorder" "HOL-Library.Char_ord"
begin

section \<open>ARGUS: the Algorand smart-contract scanner\<close>

text \<open>
  A shallow embedding of the scan pipeline of \<^verbatim>\<open>algorand_scanner\<close>: the data model of
  \<^verbatim>\<open>models.py\<close>, file discovery (\<^verbatim>\<open>parsers/file_discovery.py\<close>), the parsers' error
  handling, the orchestrator (\<^verbatim>\<open>core.py\<close>) and the two access-control rules of the
  built-in analyzer (\<^verbatim>\<open>analyzers/builtin_analyzer.py\<close>).

  Conventions.
  \<^item> A Python \<^verbatim>\<open>str\<close> is a \<open>string\<close>, one \<open>char\<close> per code point; the model covers text
    whose code points are below 256.
  \<^item> A raised exception is a value \<open>Inl e\<close> of a sum type. The type \<open>exn\<close> stands for
    instances of Python's \<^verbatim>\<open>Exception\<close> (and its subclasses), which is what every handler
    of the source (\<^verbatim>\<open>except Exception\<close>) names. Signals outside that hierarchy
    (\<^verbatim>\<open>KeyboardInterrupt\<close>, \<^verbatim>\<open>SystemExit\<close>, task cancellation) are not caused by the content
    of a scanned file and are not represented.
  \<^item> Calls to the \<^verbatim>\<open>logging\<close> module change no value the scanner returns and are left out.
  \<^item> Code that lives outside the repository (the file system behind \<^verbatim>\<open>pathlib\<close>,
    \<^verbatim>\<open>fnmatch\<close>, \<^verbatim>\<open>ast.parse\<close>, the external command-line tools) enters as a parameter.
\<close>

subsection \<open>Exceptions\<close>

datatype exn_class =
    SyntaxError | UnicodeDecodeError | ValueError | IndexError | KeyError | TypeError
  | FileNotFoundError | PermissionError | OSError | RecursionError | MemoryError | RuntimeError

text \<open>An exception instance: its class and the text \<^verbatim>\<open>str(e)\<close>.\<close>

datatype exn = Exn exn_class string

fun exn_str :: "exn \<Rightarrow> string" where
  "exn_str (Exn c s) = s"

fun exn_cls :: "exn \<Rightarrow> exn_class" where
  "exn_cls (Exn c s) = c"

subsection \<open>Strings\<close>

text \<open>The line feed.\<close>

definition newline :: char where
  "newline = CHR 0x0A"

text \<open>\<^verbatim>\<open>str.lower()\<close> on code points below 256: the ASCII capitals and the Latin-1
  capitals \<^verbatim>\<open>0xC0..0xDE\<close> (without the multiplication sign \<^verbatim>\<open>0xD7\<close>) move up by 32.\<close>

definition lower_char :: "char \<Rightarrow> char" where
  "lower_char c =
     (let n = (of_char c :: nat)
      in if (65 \<le> n \<and> n \<le> 90) \<or> (192 \<le> n \<and> n \<le> 222 \<and> n \<noteq> 215)
         then char_of (n + 32) else c)"

definition lower :: "string \<Rightarrow> string" where
  "lower s = map lower_char s"

text \<open>\<^verbatim>\<open>str.isspace\<close> for one code point below 256, as \<^verbatim>\<open>str.strip()\<close> uses it.\<close>

definition is_space :: "char \<Rightarrow> bool" where
  "is_space c =
     (let n = (of_char c :: nat)
      in (9 \<le> n \<and> n \<le> 13) \<or> (28 \<le> n \<and> n \<le> 32) \<or> n = 133 \<or> n = 160)"

definition strip :: "string \<Rightarrow> string" where
  "strip s = rev (dropWhile is_space (rev (dropWhile is_space s)))"

text \<open>\<^verbatim>\<open>s.startswith(p)\<close>.\<close>

fun startswith :: "string \<Rightarrow> string \<Rightarrow> bool" where
  "startswith s [] = True"
| "startswith [] (p # ps) = False"
| "startswith (c # cs) (p # ps) = (c = p \<and> startswith cs ps)"

text \<open>\<^verbatim>\<open>sub in s\<close>: \<open>sub\<close> occurs in \<open>s\<close> as a contiguous substring.\<close>

fun contains :: "string \<Rightarrow> string \<Rightarrow> bool" where
  "contains [] sub = (sub = [])"
| "contains (c # cs) sub = (startswith (c # cs) sub \<or> contains cs sub)"

text \<open>\<^verbatim>\<open>sep.join(xs)\<close>.\<close>

fun join :: "string \<Rightarrow> string list \<Rightarrow> string" where
  "join sep [] = []"
| "join sep [x] = x"
| "join sep (x # y # ys) = x @ sep @ join sep (y # ys)"

text \<open>A slice \<^verbatim>\<open>xs[a:b]\<close> with Python's treatment of negative and out-of-range bounds.\<close>

definition py_slice :: "'a list \<Rightarrow> int \<Rightarrow> int \<Rightarrow> 'a list" where
  "py_slice xs a b =
     (let n = int (length xs);
          lo = (if a < 0 then max 0 (n + a) else min n a);
          hi = (if b < 0 then max 0 (n + b) else min n b)
      in take (nat hi - nat lo) (drop (nat lo) xs))"

text \<open>\<^verbatim>\<open>xs.index(x)\<close>: the position of the first occurrence, \<^verbatim>\<open>ValueError\<close> when there is none.\<close>

fun list_index :: "'a list \<Rightarrow> 'a \<Rightarrow> exn + nat" where
  "list_index [] x = Inl (Exn ValueError ''value is not in list'')"
| "list_index (y # ys) x =
     (if y = x then Inr 0
      else (case list_index ys x of Inl e \<Rightarrow> Inl e | Inr i \<Rightarrow> Inr (Suc i)))"

subsection \<open>Paths\<close>

text \<open>
  A \<^verbatim>\<open>pathlib.Path\<close> is modelled by the list of the components of its normalised string
  (the string split at \<^verbatim>\<open>/\<close>). This is the value pathlib compares: two paths are equal when
  their component lists are, and \<^verbatim>\<open>p < q\<close> is the lexicographic order of the component
  lists, each component compared as a string by code points. That order is the
  \<open>linorder\<close> instance of \<open>char list list\<close> used below.
\<close>

type_synonym path = "string list"

text \<open>\<^verbatim>\<open>str(path)\<close>.\<close>

definition path_str :: "path \<Rightarrow> string" where
  "path_str p = join ''/'' p"

text \<open>\<^verbatim>\<open>path.name\<close>: the final component.\<close>

definition path_name :: "path \<Rightarrow> string" where
  "path_name p = (if p = [] then [] else last p)"

text \<open>\<^verbatim>\<open>name.rfind('.')\<close>, \<open>None\<close> for Python's \<^verbatim>\<open>-1\<close>.\<close>

fun rfind_dot :: "string \<Rightarrow> nat option" where
  "rfind_dot [] = None"
| "rfind_dot (c # cs) =
     (case rfind_dot cs of
        Some i \<Rightarrow> Some (Suc i)
      | None \<Rightarrow> if c = CHR ''.'' then Some 0 else None)"

text \<open>\<^verbatim>\<open>path.suffix\<close>: from the last dot of the name on, unless that dot is the first or
  the last character of the name.\<close>

definition path_suffix :: "path \<Rightarrow> string" where
  "path_suffix p =
     (let name = path_name p
      in case rfind_dot name of
           None \<Rightarrow> []
         | Some i \<Rightarrow> if 0 < i \<and> i < length name - 1 then drop i name else [])"

subsection \<open>Data model (\<^verbatim>\<open>models.py\<close>)\<close>

datatype SeverityLevel = CRITICAL | HIGH | MEDIUM | LOW | INFO

text \<open>The \<^verbatim>\<open>.value\<close> of a member of the enumeration.\<close>

fun SeverityLevel_value :: "SeverityLevel \<Rightarrow> string" where
  "SeverityLevel_value CRITICAL = ''CRITICAL''"
| "SeverityLevel_value HIGH = ''HIGH''"
| "SeverityLevel_value MEDIUM = ''MEDIUM''"
| "SeverityLevel_value LOW = ''LOW''"
| "SeverityLevel_value INFO = ''INFO''"

text \<open>\<^verbatim>\<open>SeverityLevel(value)\<close>: lookup of a member by value, \<^verbatim>\<open>ValueError\<close> for any other string.\<close>

definition SeverityLevel_of_value :: "string \<Rightarrow> exn + SeverityLevel" where
  "SeverityLevel_of_value s =
     (if s = ''CRITICAL'' then Inr CRITICAL
      else if s = ''HIGH'' then Inr HIGH
      else if s = ''MEDIUM'' then Inr MEDIUM
      else if s = ''LOW'' then Inr LOW
      else if s = ''INFO'' then Inr INFO
      else Inl (Exn ValueError ([CHR 0x27] @ s @ [CHR 0x27] @ '' is not a valid SeverityLevel'')))"

datatype FileType = PYTHON | TEAL | TYPESCRIPT | JAVASCRIPT

record Vulnerability =
  vfile :: string
  line :: int
  column :: "int option"
  severity :: SeverityLevel
  tool :: string
  rule_id :: string
  message :: string
  description :: "string option"
  cwe_id :: "string option"
  confidence :: "string option"
  code_snippet :: "string option"
  fix_suggestion :: "string option"

record ScanResult =
  files_scanned :: int
  vulnerabilities :: "Vulnerability list"
  errors :: "string list"
  scan_duration :: real
  tools_used :: "string list"

text \<open>The derived counts of \<^verbatim>\<open>ScanResult\<close> (its properties).\<close>

definition total_vulnerabilities :: "ScanResult \<Rightarrow> int" where
  "total_vulnerabilities r = int (length (vulnerabilities r))"

definition critical_count :: "ScanResult \<Rightarrow> int" where
  "critical_count r = (\<Sum>v \<leftarrow> filter (\<lambda>v. severity v = CRITICAL) (vulnerabilities r). 1)"

definition high_count :: "ScanResult \<Rightarrow> int" where
  "high_count r = (\<Sum>v \<leftarrow> filter (\<lambda>v. severity v = HIGH) (vulnerabilities r). 1)"

definition medium_count :: "ScanResult \<Rightarrow> int" where
  "medium_count r = (\<Sum>v \<leftarrow> filter (\<lambda>v. severity v = MEDIUM) (vulnerabilities r). 1)"

definition low_count :: "ScanResult \<Rightarrow> int" where
  "low_count r = (\<Sum>v \<leftarrow> filter (\<lambda>v. severity v = LOW) (vulnerabilities r). 1)"

record ScanConfig =
  target_paths :: "string list"
  include_patterns :: "string list"
  exclude_patterns :: "string list"
  analyzers :: "string list"
  severity_threshold :: SeverityLevel
  output_format :: string
  output_file :: "string option"
  max_workers :: int
  timeout :: int

subsection \<open>The severity threshold (\<^verbatim>\<open>core.py\<close>)\<close>

definition severity_order :: "string list" where
  "severity_order = [''INFO'', ''LOW'', ''MEDIUM'', ''HIGH'', ''CRITICAL'']"

text \<open>\<^verbatim>\<open>AlgorandScanner._meets_severity_threshold\<close>, for a scanner whose configuration is
  \<open>cfg\<close>. Either \<^verbatim>\<open>index\<close> call may raise.\<close>

definition meets_severity_threshold :: "ScanConfig \<Rightarrow> SeverityLevel \<Rightarrow> exn + bool" where
  "meets_severity_threshold cfg sev =
     (case list_index severity_order (SeverityLevel_value (severity_threshold cfg)) of
        Inl e \<Rightarrow> Inl e
      | Inr threshold_index \<Rightarrow>
          (case list_index severity_order (SeverityLevel_value sev) of
             Inl e \<Rightarrow> Inl e
           | Inr severity_index \<Rightarrow> Inr (severity_index \<ge> threshold_index)))"

text \<open>The list comprehension of \<^verbatim>\<open>scan\<close> that keeps the findings meeting the threshold; it
  raises as soon as one test raises.\<close>

fun filter_vulnerabilities :: "ScanConfig \<Rightarrow> Vulnerability list \<Rightarrow> exn + Vulnerability list" where
  "filter_vulnerabilities cfg [] = Inr []"
| "filter_vulnerabilities cfg (v # vs) =
     (case meets_severity_threshold cfg (severity v) of
        Inl e \<Rightarrow> Inl e
      | Inr keep \<Rightarrow>
          (case filter_vulnerabilities cfg vs of
             Inl e \<Rightarrow> Inl e
           | Inr rest \<Rightarrow> Inr (if keep then v # rest else rest)))"

text \<open>The order of the specification, \<^verbatim>\<open>INFO < LOW < MEDIUM < HIGH < CRITICAL\<close>, as a rank.
  It follows the specification's words and is what the code above is compared with.\<close>

fun spec_order :: "SeverityLevel \<Rightarrow> nat" where
  "spec_order INFO = 0"
| "spec_order LOW = 1"
| "spec_order MEDIUM = 2"
| "spec_order HIGH = 3"
| "spec_order CRITICAL = 4"

subsection \<open>File discovery (\<^verbatim>\<open>parsers/file_discovery.py\<close>)\<close>

text \<open>
  What discovery asks of the outside world: \<open>Path\<close> builds a path from a configured
  string, \<open>is_file\<close> and \<open>is_dir\<close> query the file system, \<open>rglob d pattern\<close> gives the
  paths the generator \<^verbatim>\<open>d.rglob(pattern)\<close> yields and the exception that ends it, if one
  does, and \<open>fnmatch name pattern\<close> is \<^verbatim>\<open>fnmatch.fnmatch\<close>.
\<close>

record filesystem =
  Path :: "string \<Rightarrow> path"
  is_file :: "path \<Rightarrow> bool"
  is_dir :: "path \<Rightarrow> bool"
  rglob :: "path \<Rightarrow> string \<Rightarrow> path list \<times> exn option"
  fnmatch :: "string \<Rightarrow> string \<Rightarrow> bool"

text \<open>The loop of \<^verbatim>\<open>_scan_directory\<close> over the include patterns. The \<^verbatim>\<open>try\<close> encloses the
  whole loop: an exception ends it and keeps the files added so far.\<close>

fun scan_directory_loop :: "filesystem \<Rightarrow> path \<Rightarrow> string list \<Rightarrow> path set \<Rightarrow> path set" where
  "scan_directory_loop fs directory [] files = files"
| "scan_directory_loop fs directory (pattern # patterns) files =
     (case rglob fs directory pattern of
        (found, None) \<Rightarrow>
          scan_directory_loop fs directory patterns (files \<union> set (filter (is_file fs) found))
      | (found, Some e) \<Rightarrow> files \<union> set (filter (is_file fs) found))"

definition scan_directory :: "filesystem \<Rightarrow> ScanConfig \<Rightarrow> path \<Rightarrow> path set" where
  "scan_directory fs cfg directory = scan_directory_loop fs directory (include_patterns cfg) {}"

text \<open>One of the two pattern loops of \<^verbatim>\<open>_should_include_file\<close>: does the full path or the
  bare file name match one of the patterns?\<close>

fun matches_any :: "filesystem \<Rightarrow> string \<Rightarrow> string \<Rightarrow> string list \<Rightarrow> bool" where
  "matches_any fs file_str name [] = False"
| "matches_any fs file_str name (pattern # patterns) =
     (if fnmatch fs file_str pattern \<or> fnmatch fs name pattern then True
      else matches_any fs file_str name patterns)"

definition should_include_file :: "filesystem \<Rightarrow> ScanConfig \<Rightarrow> path \<Rightarrow> bool" where
  "should_include_file fs cfg file_path =
     (let file_str = path_str file_path
      in if matches_any fs file_str (path_name file_path) (exclude_patterns cfg) then False
         else if matches_any fs file_str (path_name file_path) (include_patterns cfg) then True
         else False)"

text \<open>The loop of \<^verbatim>\<open>discover_files\<close> over the target paths, filling the set \<^verbatim>\<open>all_files\<close>.\<close>

fun collect_targets :: "filesystem \<Rightarrow> ScanConfig \<Rightarrow> string list \<Rightarrow> path set \<Rightarrow> path set" where
  "collect_targets fs cfg [] all_files = all_files"
| "collect_targets fs cfg (target_path # targets) all_files =
     (let path = Path fs target_path
      in if is_file fs path then collect_targets fs cfg targets (insert path all_files)
         else if is_dir fs path
           then collect_targets fs cfg targets (all_files \<union> scan_directory fs cfg path)
         else collect_targets fs cfg targets all_files)"

text \<open>\<^verbatim>\<open>discover_files\<close>: the files of the set that pass the filter, sorted. Python iterates
  the set in an order of its own; \<^verbatim>\<open>sorted\<close> of distinct paths does not depend on it.\<close>

definition discover_files :: "filesystem \<Rightarrow> ScanConfig \<Rightarrow> path list" where
  "discover_files fs cfg =
     sorted_list_of_set
       (Set.filter (should_include_file fs cfg) (collect_targets fs cfg (target_paths cfg) {}))"

subsection \<open>Analyzers and parsers as the orchestrator sees them\<close>

text \<open>A parser's \<^verbatim>\<open>parse\<close>: a document, \<open>None\<close> for "not applicable", or an exception. The
  document type \<open>'d\<close> stays open.\<close>

type_synonym 'd parser = "path \<Rightarrow> exn + 'd option"

text \<open>An analyzer object: the two operations of \<^verbatim>\<open>BaseAnalyzer\<close>.\<close>

record 'd Analyzer =
  supports_file_type :: "FileType \<Rightarrow> bool"
  analyze :: "path \<Rightarrow> 'd \<Rightarrow> exn + Vulnerability list"

text \<open>\<^verbatim>\<open>BaseAnalyzer._create_vulnerability\<close>, with the analyzer's name first.\<close>

definition create_vulnerability ::
  "string \<Rightarrow> path \<Rightarrow> int \<Rightarrow> SeverityLevel \<Rightarrow> string \<Rightarrow> string \<Rightarrow> string option \<Rightarrow> string option
     \<Rightarrow> string option \<Rightarrow> string option \<Rightarrow> string option \<Rightarrow> int option \<Rightarrow> Vulnerability" where
  "create_vulnerability name file_path lineno sev rule msg descr cwe conf snippet fix col =
     \<lparr>vfile = path_str file_path, line = lineno, column = col, severity = sev, tool = name,
      rule_id = rule, message = msg, description = descr, cwe_id = cwe, confidence = conf,
      code_snippet = snippet, fix_suggestion = fix\<rparr>"

text \<open>\<^verbatim>\<open>TealerAnalyzer\<close>: \<open>tealer_available\<close> is the result of the availability probe made at
  construction, \<open>run\<close> stands for running the external tool and converting its output.
  \<^verbatim>\<open>analyze\<close> swallows every exception of the run.\<close>

definition TealerAnalyzer :: "bool \<Rightarrow> (path \<Rightarrow> exn + Vulnerability list) \<Rightarrow> 'd Analyzer" where
  "TealerAnalyzer tealer_available run =
     \<lparr>supports_file_type = (\<lambda>file_type. file_type = TEAL \<and> tealer_available),
      analyze = (\<lambda>file_path parsed_content.
        if \<not> tealer_available then Inr []
        else (case run file_path of Inr vs \<Rightarrow> Inr vs | Inl e \<Rightarrow> Inr []))\<rparr>"

text \<open>The instances the scanner's constructor creates: three parser objects and four
  analyzer objects.\<close>

record 'd instances =
  PythonParser :: "'d parser"
  TealParser :: "'d parser"
  TypeScriptParser :: "'d parser"
  BuiltinAnalyzer :: "'d Analyzer"
  PandaAnalyzer :: "'d Analyzer"
  Tealer :: "'d Analyzer"
  QualityAssuranceAnalyzer :: "'d Analyzer"

subsection \<open>The orchestrator (\<^verbatim>\<open>core.py\<close>)\<close>

record 'd AlgorandScanner =
  self_config :: ScanConfig
  self_parsers :: "FileType \<Rightarrow> 'd parser option"
  self_analyzers :: "(string \<times> 'd Analyzer) list"

text \<open>\<^verbatim>\<open>AlgorandScanner.__init__\<close>. The dictionary of analyzers keeps insertion order, so it is
  an association list.\<close>

definition AlgorandScanner_init :: "'d instances \<Rightarrow> ScanConfig \<Rightarrow> 'd AlgorandScanner" where
  "AlgorandScanner_init inst cfg =
     \<lparr>self_config = cfg,
      self_parsers = (\<lambda>file_type. Some (case file_type of
          PYTHON \<Rightarrow> PythonParser inst
        | TEAL \<Rightarrow> TealParser inst
        | TYPESCRIPT \<Rightarrow> TypeScriptParser inst
        | JAVASCRIPT \<Rightarrow> TypeScriptParser inst)),
      self_analyzers =
        (if ''builtin'' \<in> set (analyzers cfg) then [(''builtin'', BuiltinAnalyzer inst)] else []) @
        (if ''panda'' \<in> set (analyzers cfg) then [(''panda'', PandaAnalyzer inst)] else []) @
        (if ''tealer'' \<in> set (analyzers cfg) then [(''tealer'', Tealer inst)] else []) @
        (if ''quality-assurance'' \<in> set (analyzers cfg)
         then [(''quality-assurance'', QualityAssuranceAnalyzer inst)] else [])\<rparr>"

text \<open>\<^verbatim>\<open>_get_file_type\<close>.\<close>

definition get_file_type :: "path \<Rightarrow> FileType option" where
  "get_file_type file_path =
     (let suffix = lower (path_suffix file_path)
      in if suffix = ''.py'' then Some PYTHON
         else if suffix = ''.teal'' then Some TEAL
         else if suffix \<in> set [''.ts'', ''.tsx''] then Some TYPESCRIPT
         else if suffix \<in> set [''.js'', ''.jsx''] then Some JAVASCRIPT
         else None)"

text \<open>The analyzer loop of \<^verbatim>\<open>_scan_single_file\<close>; \<open>vulns\<close> is the list built so far. The
  handler around \<^verbatim>\<open>analyze\<close> only logs.\<close>

fun run_analyzers ::
  "(string \<times> 'd Analyzer) list \<Rightarrow> FileType \<Rightarrow> path \<Rightarrow> 'd \<Rightarrow> Vulnerability list \<Rightarrow> Vulnerability list"
where
  "run_analyzers [] file_type file_path parsed_content vulns = vulns"
| "run_analyzers ((analyzer_name, analyzer) # rest) file_type file_path parsed_content vulns =
     (if supports_file_type analyzer file_type then
        (case analyze analyzer file_path parsed_content of
           Inr analyzer_results \<Rightarrow>
             run_analyzers rest file_type file_path parsed_content (vulns @ analyzer_results)
         | Inl e \<Rightarrow> run_analyzers rest file_type file_path parsed_content vulns)
      else run_analyzers rest file_type file_path parsed_content vulns)"

text \<open>\<^verbatim>\<open>_scan_single_file\<close>. The call of the parser is not inside any \<^verbatim>\<open>try\<close> here.\<close>

definition scan_single_file :: "'d AlgorandScanner \<Rightarrow> path \<Rightarrow> exn + Vulnerability list" where
  "scan_single_file self file_path =
     (case get_file_type file_path of
        None \<Rightarrow> Inr []
      | Some file_type \<Rightarrow>
          (case self_parsers self file_type of
             None \<Rightarrow> Inr []
           | Some parser \<Rightarrow>
               (case parser file_path of
                  Inl e \<Rightarrow> Inl e
                | Inr None \<Rightarrow> Inr []
                | Inr (Some parsed_content) \<Rightarrow>
                    Inr (run_analyzers (self_analyzers self) file_type file_path parsed_content []))))"

text \<open>The closure \<^verbatim>\<open>scan_file\<close> of \<^verbatim>\<open>scan\<close>: its result and the shared list \<^verbatim>\<open>errors\<close> after it.\<close>

definition scan_file ::
  "'d AlgorandScanner \<Rightarrow> path \<Rightarrow> string list \<Rightarrow> Vulnerability list \<times> string list" where
  "scan_file self file_path errs =
     (case scan_single_file self file_path of
        Inr vs \<Rightarrow> (vs, errs)
      | Inl e \<Rightarrow>
          ([], errs @ [''Error scanning '' @ path_str file_path @ '': '' @ exn_str e]))"

text \<open>\<^verbatim>\<open>asyncio.gather\<close> over the tasks, \<^verbatim>\<open>return_exceptions=True\<close>: one result per file, in
  the order of the files. The tasks are run one after the other in that order, which is
  one of the schedules of the event loop; another schedule can only permute the error
  strings.\<close>

fun gather ::
  "'d AlgorandScanner \<Rightarrow> path list \<Rightarrow> string list \<Rightarrow> (exn + Vulnerability list) list \<times> string list"
where
  "gather self [] errs = ([], errs)"
| "gather self (file_path # files) errs =
     (case scan_file self file_path errs of
        (result, errs') \<Rightarrow>
          (case gather self files errs' of
             (results, errs'') \<Rightarrow> (Inr result # results, errs'')))"

text \<open>The loop that collects the results.\<close>

fun collect_results ::
  "(exn + Vulnerability list) list \<Rightarrow> Vulnerability list \<Rightarrow> string list
     \<Rightarrow> Vulnerability list \<times> string list"
where
  "collect_results [] vulns errs = (vulns, errs)"
| "collect_results (Inr result # results) vulns errs = collect_results results (vulns @ result) errs"
| "collect_results (Inl e # results) vulns errs = collect_results results vulns (errs @ [exn_str e])"

text \<open>
  \<^verbatim>\<open>scan\<close> after discovery, for the discovered \<open>files\<close>; \<open>start_time\<close> and \<open>end_time\<close> are the
  two readings of the clock. The result is \<open>None\<close> when the call never returns:
  \<^verbatim>\<open>asyncio.Semaphore\<close> raises \<^verbatim>\<open>ValueError\<close> for a negative value, and with the value 0 no
  task ever passes the semaphore, so \<^verbatim>\<open>gather\<close> waits forever unless there is no task.
\<close>

definition scan_files ::
  "'d AlgorandScanner \<Rightarrow> path list \<Rightarrow> real \<Rightarrow> real \<Rightarrow> (exn + ScanResult) option" where
  "scan_files self files start_time end_time =
     (if max_workers (self_config self) < 0
        then Some (Inl (Exn ValueError ''Semaphore initial value must be >= 0''))
      else if max_workers (self_config self) = 0 \<and> files \<noteq> [] then None
      else
        (case gather self files [] of
           (results, errs) \<Rightarrow>
             (case collect_results results [] errs of
                (vulns, errs') \<Rightarrow>
                  (case filter_vulnerabilities (self_config self) vulns of
                     Inl e \<Rightarrow> Some (Inl e)
                   | Inr filtered_vulnerabilities \<Rightarrow>
                       Some (Inr \<lparr>files_scanned = int (length files),
                                  vulnerabilities = filtered_vulnerabilities,
                                  errors = errs',
                                  scan_duration = end_time - start_time,
                                  tools_used = map fst (self_analyzers self)\<rparr>)))))"

text \<open>\<^verbatim>\<open>AlgorandScanner.scan\<close>.\<close>

definition scan ::
  "filesystem \<Rightarrow> 'd AlgorandScanner \<Rightarrow> real \<Rightarrow> real \<Rightarrow> (exn + ScanResult) option" where
  "scan fs self start_time end_time =
     scan_files self (discover_files fs (self_config self)) start_time end_time"

subsection \<open>The parsers' \<^verbatim>\<open>parse\<close> (\<^verbatim>\<open>parsers/*.py\<close>)\<close>

text \<open>Sequencing inside a \<^verbatim>\<open>try\<close> block: the first exception ends the block.\<close>

definition then_do :: "exn + 'a \<Rightarrow> ('a \<Rightarrow> exn + 'b) \<Rightarrow> exn + 'b" where
  "then_do m f = (case m of Inl e \<Rightarrow> Inl e | Inr x \<Rightarrow> f x)"

text \<open>
  The steps of \<^verbatim>\<open>PythonParser.parse\<close>, each of which may raise: reading the file as UTF-8
  (\<^verbatim>\<open>_read_file\<close>), \<^verbatim>\<open>ast.parse\<close> with the content and the file name, the content check
  \<^verbatim>\<open>_contains_algorand_code\<close>, and the extraction of contracts, imports and functions that
  builds the returned dictionary (\<open>py_document\<close>). The theorem about \<^verbatim>\<open>parse\<close> holds for
  every behaviour of these steps.
\<close>

record ('t, 'd) python_steps =
  py_read_file :: "path \<Rightarrow> exn + string"
  ast_parse :: "string \<Rightarrow> string \<Rightarrow> exn + 't"
  py_contains_algorand_code :: "'t \<Rightarrow> string \<Rightarrow> exn + bool"
  py_document :: "path \<Rightarrow> string \<Rightarrow> 't \<Rightarrow> exn + 'd"

text \<open>\<^verbatim>\<open>PythonParser.parse\<close>: the whole body is one \<^verbatim>\<open>try\<close> with a handler for
  \<^verbatim>\<open>SyntaxError\<close> and a handler for \<^verbatim>\<open>Exception\<close>; both log and return \<^verbatim>\<open>None\<close>.\<close>

definition PythonParser_parse :: "('t, 'd) python_steps \<Rightarrow> path \<Rightarrow> exn + 'd option" where
  "PythonParser_parse steps file_path =
     (case then_do (py_read_file steps file_path) (\<lambda>content.
           then_do (ast_parse steps content (path_str file_path)) (\<lambda>tree.
           then_do (py_contains_algorand_code steps tree content) (\<lambda>found.
           if \<not> found then Inr None
           else then_do (py_document steps file_path content tree) (\<lambda>doc. Inr (Some doc)))))
      of Inr result \<Rightarrow> Inr result
       | Inl e \<Rightarrow> if exn_cls e = SyntaxError then Inr None else Inr None)"

text \<open>The steps of \<^verbatim>\<open>TealParser.parse\<close> and of \<^verbatim>\<open>TypeScriptParser.parse\<close>: reading the
  file, the content check (\<^verbatim>\<open>_is_teal_file\<close>, \<^verbatim>\<open>_contains_algorand_code\<close>), and the
  extractions that build the returned dictionary.\<close>

record 'd text_steps =
  read_file :: "path \<Rightarrow> exn + string"
  relevant :: "string \<Rightarrow> exn + bool"
  document :: "path \<Rightarrow> string \<Rightarrow> exn + 'd"

text \<open>\<^verbatim>\<open>TealParser.parse\<close> and \<^verbatim>\<open>TypeScriptParser.parse\<close>: one \<^verbatim>\<open>try\<close> around the body, one
  handler for \<^verbatim>\<open>Exception\<close> that logs and returns \<^verbatim>\<open>None\<close>.\<close>

definition TealParser_parse :: "'d text_steps \<Rightarrow> path \<Rightarrow> exn + 'd option" where
  "TealParser_parse steps file_path =
     (case then_do (read_file steps file_path) (\<lambda>content.
           then_do (relevant steps content) (\<lambda>is_teal.
           if \<not> is_teal then Inr None
           else then_do (document steps file_path content) (\<lambda>doc. Inr (Some doc))))
      of Inr result \<Rightarrow> Inr result
       | Inl e \<Rightarrow> Inr None)"

definition TypeScriptParser_parse :: "'d text_steps \<Rightarrow> path \<Rightarrow> exn + 'd option" where
  "TypeScriptParser_parse steps file_path =
     (case then_do (read_file steps file_path) (\<lambda>content.
           then_do (relevant steps content) (\<lambda>found.
           if \<not> found then Inr None
           else then_do (document steps file_path content) (\<lambda>doc. Inr (Some doc))))
      of Inr result \<Rightarrow> Inr result
       | Inl e \<Rightarrow> Inr None)"

subsection \<open>Loading a configuration (\<^verbatim>\<open>ScanConfig.from_dict\<close>)\<close>

text \<open>The dictionary given to \<^verbatim>\<open>from_dict\<close>: each key is present or absent, and a present
  value has the type the field is annotated with (the severity as its string).\<close>

record config_data =
  d_target_paths :: "string list option"
  d_include_patterns :: "string list option"
  d_exclude_patterns :: "string list option"
  d_analyzers :: "string list option"
  d_severity_threshold :: "string option"
  d_output_format :: "string option"
  d_output_file :: "string option"
  d_max_workers :: "int option"
  d_timeout :: "int option"

text \<open>\<^verbatim>\<open>data.get(key, default)\<close>.\<close>

definition dict_get :: "'a option \<Rightarrow> 'a \<Rightarrow> 'a" where
  "dict_get entry dflt = (case entry of None \<Rightarrow> dflt | Some v \<Rightarrow> v)"

text \<open>\<^verbatim>\<open>ScanConfig.from_dict\<close>. Only the conversion \<^verbatim>\<open>SeverityLevel(...)\<close> can raise; every
  other entry is stored as it is.\<close>

definition from_dict :: "config_data \<Rightarrow> exn + ScanConfig" where
  "from_dict data =
     (case SeverityLevel_of_value (dict_get (d_severity_threshold data) ''LOW'') of
        Inl e \<Rightarrow> Inl e
      | Inr threshold \<Rightarrow>
          Inr \<lparr>target_paths = dict_get (d_target_paths data) [''.''],
               include_patterns = dict_get (d_include_patterns data)
                 [''**/*.py'', ''**/*.teal'', ''**/*.ts'', ''**/*.tsx''],
               exclude_patterns = dict_get (d_exclude_patterns data)
                 [''**/node_modules/**'', ''**/.git/**'', ''**/venv/**''],
               analyzers = dict_get (d_analyzers data) [''builtin'', ''panda'', ''tealer''],
               severity_threshold = threshold,
               output_format = dict_get (d_output_format data) ''json'',
               output_file = d_output_file data,
               max_workers = dict_get (d_max_workers data) 4,
               timeout = dict_get (d_timeout data) 300\<rparr>)"

subsection \<open>The access-control rules of the built-in analyzer\<close>




text \<open>The finding the TEAL rule creates for line \<open>i\<close> with text \<open>row\<close>.\<close>

definition teal_missing_access_control :: "path \<Rightarrow> int \<Rightarrow> string \<Rightarrow> Vulnerability" where
  "teal_missing_access_control file_path i row =
     create_vulnerability ''builtin'' file_path i HIGH ''teal_missing_access_control''
       ''State modification without sender verification''
       (Some ''State modifications should verify the transaction sender'')
       (Some ''CWE-862'') (Some ''MEDIUM'') (Some (strip row))
       (Some ''Add sender verification before state modifications'') None"



text \<open>
  A fragment of Python's \<^verbatim>\<open>ast\<close>, as far as \<^verbatim>\<open>_extract_contracts\<close> and
  \<^verbatim>\<open>_extract_class_methods\<close> look at it: an expression is a name, an attribute access, a
  call (of which only the called expression matters) or something else; a statement of a
  class body is a \<^verbatim>\<open>FunctionDef\<close> with its name, line, decorators and argument names, or
  something else; a class has a name, a line, base expressions and a body.
\<close>

datatype expr = Name string | Attribute expr string | Call expr | OtherExpr

datatype stmt = FunctionDef string int "expr list" "string list" | OtherStmt

datatype class_def = ClassDef string int "expr list" "stmt list"

record method_info =
  method_name :: string
  method_line :: int
  decorators :: "string list"
  method_args :: "string list"
  is_abi_method :: bool

record contract_info =
  contract_name :: string
  contract_line :: int
  bases :: "string list"
  methods :: "method_info list"

text \<open>The names \<^verbatim>\<open>_extract_class_methods\<close> collects from a decorator list: a plain name, or
  the called name of a call; any other decorator is skipped.\<close>

fun decorator_names :: "expr list \<Rightarrow> string list" where
  "decorator_names [] = []"
| "decorator_names (Name ident # rest) = ident # decorator_names rest"
| "decorator_names (Call (Name ident) # rest) = ident # decorator_names rest"
| "decorator_names (other # rest) = decorator_names rest"

fun extract_class_methods :: "stmt list \<Rightarrow> method_info list" where
  "extract_class_methods [] = []"
| "extract_class_methods (FunctionDef name lineno decorator_list arg_names # body) =
     \<lparr>method_name = name, method_line = lineno,
      decorators = decorator_names decorator_list, method_args = arg_names,
      is_abi_method = (''abimethod'' \<in> set (decorator_names decorator_list))\<rparr>
     # extract_class_methods body"
| "extract_class_methods (OtherStmt # body) = extract_class_methods body"

text \<open>\<^verbatim>\<open>_extract_contracts\<close>, over the \<^verbatim>\<open>ClassDef\<close> nodes that \<^verbatim>\<open>ast.walk\<close> yields.\<close>

definition ALGORAND_CLASSES :: "string list" where
  "ALGORAND_CLASSES = [''ARC4Contract'', ''Application'', ''ApplicationStateValue'', ''Contract'']"

fun base_names :: "expr list \<Rightarrow> string list" where
  "base_names [] = []"
| "base_names (Name ident # rest) = ident # base_names rest"
| "base_names (Attribute v attr # rest) = attr # base_names rest"
| "base_names (other # rest) = base_names rest"

fun extract_contracts :: "class_def list \<Rightarrow> contract_info list" where
  "extract_contracts [] = []"
| "extract_contracts (ClassDef name lineno class_bases body # nodes) =
     (if list_ex (\<lambda>base. base \<in> set ALGORAND_CLASSES) (base_names class_bases)
      then [\<lparr>contract_name = name, contract_line = lineno, bases = base_names class_bases,
             methods = extract_class_methods body\<rparr>]
      else [])
     @ extract_contracts nodes"

text \<open>
  The regular expression of the Python rule,
  \<^verbatim>\<open>(assert.*sender|Txn\.sender.*==|Global\.creator)\<close> with \<^verbatim>\<open>re.IGNORECASE\<close>, searched in
  one line. \<open>search_then s a b\<close> is \<^verbatim>\<open>re.search\<close> for the literal \<open>a\<close>, then \<^verbatim>\<open>.*\<close> (any
  characters but a newline), then the literal \<open>b\<close>; ignoring case is done by lower-casing
  the line and writing the literals in lower case.
\<close>

fun dotstar_then :: "string \<Rightarrow> string \<Rightarrow> bool" where
  "dotstar_then [] b = (b = [])"
| "dotstar_then (c # cs) b = (startswith (c # cs) b \<or> (c \<noteq> newline \<and> dotstar_then cs b))"

fun search_then :: "string \<Rightarrow> string \<Rightarrow> string \<Rightarrow> bool" where
  "search_then [] a b = (a = [] \<and> b = [])"
| "search_then (c # cs) a b =
     ((startswith (c # cs) a \<and> dotstar_then (drop (length a) (c # cs)) b) \<or> search_then cs a b)"

definition re_access_control :: "string \<Rightarrow> bool" where
  "re_access_control row =
     (let s = lower row
      in search_then s ''assert'' ''sender'' \<or> search_then s ''txn.sender'' ''==''
         \<or> contains s ''global.creator'')"

definition critical_functions :: "string list" where
  "critical_functions = [''withdraw'', ''transfer'', ''mint'', ''burn'', ''delete'', ''destroy'', ''update'']"

text \<open>The finding the Python rule creates for the method \<open>name\<close> at line \<open>lineno\<close>.\<close>

definition py_missing_access_control :: "path \<Rightarrow> int \<Rightarrow> string \<Rightarrow> Vulnerability" where
  "py_missing_access_control file_path lineno name =
     create_vulnerability ''builtin'' file_path lineno CRITICAL ''py_missing_access_control''
       (''Critical function '' @ [CHR 0x27] @ name @ [CHR 0x27] @ '' lacks access control'')
       (Some (''Critical functions should verify the caller'' @ [CHR 0x27] @ ''s authorization''))
       (Some ''CWE-862'') (Some ''MEDIUM'') None
       (Some ''Add sender verification: assert Txn.sender == Global.creator_address'') None"

text \<open>The two loops of \<^verbatim>\<open>_check_missing_access_control_python\<close>, over the methods of a
  contract and over the contracts; \<open>contracts\<close> is the entry \<^verbatim>\<open>'contracts'\<close> of the parsed
  content.\<close>

fun check_methods :: "path \<Rightarrow> string list \<Rightarrow> method_info list \<Rightarrow> Vulnerability list" where
  "check_methods file_path lines [] = []"
| "check_methods file_path lines (method # rest) =
     (if is_abi_method method then
        (let lineno = method_line method;
             method_lines = (if lineno \<le> int (length lines)
                             then py_slice lines (lineno - 1) (lineno + 10) else []);
             has_access_control = list_ex re_access_control method_lines
         in if list_ex (\<lambda>func. contains (lower (method_name method)) func) critical_functions
               \<and> \<not> has_access_control
            then [py_missing_access_control file_path lineno (method_name method)]
            else [])
      else [])
     @ check_methods file_path lines rest"

fun check_contracts :: "path \<Rightarrow> string list \<Rightarrow> contract_info list \<Rightarrow> Vulnerability list" where
  "check_contracts file_path lines [] = []"
| "check_contracts file_path lines (contract # rest) =
     check_methods file_path lines (methods contract) @ check_contracts file_path lines rest"

definition check_missing_access_control_python ::
  "path \<Rightarrow> string list \<Rightarrow> contract_info list \<Rightarrow> Vulnerability list" where
  "check_missing_access_control_python file_path lines contracts =
     check_contracts file_path lines contracts"

subsection \<open>What the loops of \<^verbatim>\<open>scan\<close> compute, file by file\<close>

text \<open>The findings and the error strings one file contributes to a scan, read off
  \<^verbatim>\<open>scan_file\<close>; the lemmas below show that the loops above compute exactly these.\<close>

definition file_findings :: "'d AlgorandScanner \<Rightarrow> path \<Rightarrow> Vulnerability list" where
  "file_findings self f = (case scan_single_file self f of Inr vs \<Rightarrow> vs | Inl e \<Rightarrow> [])"

definition file_errors :: "'d AlgorandScanner \<Rightarrow> path \<Rightarrow> string list" where
  "file_errors self f = (case scan_single_file self f of Inr vs \<Rightarrow> []
      | Inl e \<Rightarrow> [''Error scanning '' @ path_str f @ '': '' @ exn_str e])"

text \<open>The unfiltered list \<^verbatim>\<open>vulnerabilities\<close> of \<^verbatim>\<open>scan\<close>, as its loops build it.\<close>

definition gathered_findings :: "'d AlgorandScanner \<Rightarrow> path list \<Rightarrow> Vulnerability list" where
  "gathered_findings self files =
     fst (collect_results (fst (gather self files [])) [] (snd (gather self files [])))"

text \<open>
  Which analyzers \<^verbatim>\<open>_scan_single_file\<close> calls for a file: those it reaches \<^verbatim>\<open>analyze\<close> for,
  that is, the file has a known type, its parser returns a document, and the analyzer
  supports the type. \<open>analyzers_that_ran\<close> collects them over the files of a scan. The
  code keeps no such record; the definition states what "actually ran" means.
\<close>

definition analyzers_called_for :: "'d AlgorandScanner \<Rightarrow> path \<Rightarrow> string list" where
  "analyzers_called_for self file_path =
     (case get_file_type file_path of
        None \<Rightarrow> []
      | Some file_type \<Rightarrow>
          (case self_parsers self file_type of
             None \<Rightarrow> []
           | Some parser \<Rightarrow>
               (case parser file_path of
                  Inr (Some parsed_content) \<Rightarrow>
                    map fst (filter (\<lambda>(analyzer_name, analyzer). supports_file_type analyzer file_type)
                                    (self_analyzers self))
                | _ \<Rightarrow> [])))"

definition analyzers_that_ran :: "'d AlgorandScanner \<Rightarrow> path list \<Rightarrow> string list" where
  "analyzers_that_ran self files = remdups (concat (map (analyzers_called_for self) files))"

subsection \<open>A small installation, for the concrete instances below\<close>

text \<open>A matcher for patterns made of literal characters, \<^verbatim>\<open>*\<close> and \<^verbatim>\<open>?\<close>, on which it agrees
  with \<^verbatim>\<open>fnmatch\<close>; it serves as the \<open>fnmatch\<close> of the example file system.\<close>

fun example_fnmatch :: "string \<Rightarrow> string \<Rightarrow> bool" where
  "example_fnmatch [] [] = True"
| "example_fnmatch (c # cs) [] = False"
| "example_fnmatch [] (p # ps) = (p = CHR ''*'' \<and> example_fnmatch [] ps)"
| "example_fnmatch (c # cs) (p # ps) =
     (if p = CHR ''*'' then example_fnmatch (c # cs) ps \<or> example_fnmatch cs (p # ps)
      else (p = CHR ''?'' \<or> p = c) \<and> example_fnmatch cs ps)"

definition example_tree :: "path list" where
  "example_tree = [[''contracts'', ''vault.py''], [''contracts'', ''venv'', ''lib.py''],
                   [''contracts'', ''broken.py''], [''contracts'', ''app.teal'']]"

definition example_fs :: filesystem where
  "example_fs =
     \<lparr>Path = (\<lambda>s. [s]),
      is_file = (\<lambda>p. p \<in> set example_tree),
      is_dir = (\<lambda>p. p = [''contracts'']),
      rglob = (\<lambda>d pattern. (filter (\<lambda>p. example_fnmatch (path_name p) pattern) example_tree, None)),
      fnmatch = example_fnmatch\<rparr>"

definition example_config :: ScanConfig where
  "example_config =
     \<lparr>target_paths = [''contracts''], include_patterns = [''*.py'', ''*.teal''],
      exclude_patterns = [''*/venv/*''], analyzers = [''builtin'', ''panda'', ''tealer''],
      severity_threshold = LOW, output_format = ''json'', output_file = None,
      max_workers = 4, timeout = 300\<rparr>"

definition example_finding :: "string \<Rightarrow> path \<Rightarrow> SeverityLevel \<Rightarrow> Vulnerability" where
  "example_finding name p sev =
     create_vulnerability name p 1 sev ''example_rule'' ''example'' None None (Some ''MEDIUM'') None None None"

definition example_instances :: "string instances" where
  "example_instances =
     \<lparr>PythonParser = (\<lambda>p. if path_name p = ''broken.py''
                           then Inl (Exn RuntimeError ''parser crashed'') else Inr (Some ''import pyteal'')),
      TealParser = (\<lambda>p. Inr (Some ''#pragma version 8'')),
      TypeScriptParser = (\<lambda>p. Inr None),
      BuiltinAnalyzer = \<lparr>supports_file_type = (\<lambda>ft. True),
         analyze = (\<lambda>p d. Inr [example_finding ''builtin'' p HIGH, example_finding ''builtin'' p INFO])\<rparr>,
      PandaAnalyzer = \<lparr>supports_file_type = (\<lambda>ft. ft = PYTHON),
         analyze = (\<lambda>p d. Inl (Exn RuntimeError ''panda failed''))\<rparr>,
      Tealer = TealerAnalyzer False (\<lambda>p. Inr []),
      QualityAssuranceAnalyzer = \<lparr>supports_file_type = (\<lambda>ft. False), analyze = (\<lambda>p d. Inr [])\<rparr>\<rparr>"

definition example_scanner :: "string AlgorandScanner" where
  "example_scanner = AlgorandScanner_init example_instances example_config"

text \<open>The report of scanning the example installation, clock readings 0 and 1.\<close>

definition example_report :: ScanResult where
  "example_report =
     \<lparr>files_scanned = 3,
      vulnerabilities = [example_finding ''builtin'' [''contracts'', ''app.teal''] HIGH,
                         example_finding ''builtin'' [''contracts'', ''vault.py''] HIGH],
      errors = [''Error scanning contracts/broken.py: parser crashed''],
      scan_duration = 1,
      tools_used = [''builtin'', ''panda'', ''tealer'']\<rparr>"

text \<open>Steps for the parsers: one file is not valid UTF-8, the other does not parse.\<close>

definition example_python_steps :: "(unit, string) python_steps" where
  "example_python_steps =
     \<lparr>py_read_file = (\<lambda>p. if path_name p = ''latin1.py''
          then Inl (Exn UnicodeDecodeError ''invalid start byte'') else Inr ''def withdraw(:''),
      ast_parse = (\<lambda>content filename. Inl (Exn SyntaxError ''invalid syntax'')),
      py_contains_algorand_code = (\<lambda>tree content. Inr True),
      py_document = (\<lambda>p content tree. Inr content)\<rparr>"

definition example_text_steps :: "string text_steps" where
  "example_text_steps =
     \<lparr>read_file = (\<lambda>p. Inl (Exn UnicodeDecodeError ''invalid start byte'')),
      relevant = (\<lambda>content. Inr True),
      document = (\<lambda>p content. Inr content)\<rparr>"

text \<open>A configuration dictionary that names an analyzer the scanner does not know, and
  the configuration \<open>from_dict\<close> builds from it.\<close>

definition example_data :: config_data where
  "example_data =
     \<lparr>d_target_paths = Some [''contracts''], d_include_patterns = Some [''*.py'', ''*.teal''],
      d_exclude_patterns = Some [''*/venv/*''], d_analyzers = Some [''slither'', ''builtin''],
      d_severity_threshold = Some ''HIGH'', d_output_format = None, d_output_file = None,
      d_max_workers = None, d_timeout = None\<rparr>"

definition example_loaded :: ScanConfig where
  "example_loaded =
     \<lparr>target_paths = [''contracts''], include_patterns = [''*.py'', ''*.teal''],
      exclude_patterns = [''*/venv/*''], analyzers = [''slither'', ''builtin''],
      severity_threshold = HIGH, output_format = ''json'', output_file = None,
      max_workers = 4, timeout = 300\<rparr>"




text \<open>The first 38 lines of the repository's \<^verbatim>\<open>test_contracts/vulnerable_contract.py\<close>, and
  the class node \<^verbatim>\<open>ast.parse\<close> gives for them.\<close>

definition vulnerable_contract_lines :: "string list" where
  \<open>vulnerable_contract_lines = [
      ''"""'',
      ''Vulnerable Algorand Smart Contract (PyTeal/Algopy)'',
      ''This contract contains INTENTIONAL vulnerabilities for testing purposes'',
      ''DO NOT USE IN PRODUCTION'',
      ''"""'',
      '''',
      ''from algopy import ARC4Contract, UInt64, String, Txn, Global, op, Bytes'',
      ''from algopy.arc4 import abimethod'',
      '''',
      ''class VulnerableContract(ARC4Contract):'',
      ''    """A deliberately vulnerable contract for security testing"""'',
      ''    '',
      ''    # State variables'',
      ''    balance: UInt64'',
      ''    owner: String'',
      ''    secret_key: String'',
      ''    admin_backdoor: String'',
      ''    '',
      ''    def __init__(self) -> None:'',
      ''        # VULNERABILITY 1: Hardcoded sensitive data'',
      ''        self.secret_key = String("sk_live_51234567890abcdef")  # CRITICAL: Hardcoded private key'',
      ''        self.admin_backdoor = String("ADMIN123BACKDOOR456")    # HIGH: Hardcoded backdoor'',
      ''        self.balance = UInt64(1000000)'',
      ''        self.owner = Global.creator_address'',
      ''    '',
      ''    @abimethod()'',
      ''    def withdraw(self, amount: UInt64) -> None:'',
      ''        """VULNERABILITY 2: Missing access control - CRITICAL"""'',
      ''        # Anyone can withdraw funds - no authorization check'',
      ''        self.balance -= amount  # VULNERABILITY 3: Unchecked arithmetic - MEDIUM'',
      ''        '',
      ''    @abimethod()'',
      ''    def emergency_withdraw(self) -> None:'',
      ''        """VULNERABILITY 4: Logic bomb with hardcoded condition - HIGH"""'',
      ''        # Backdoor for specific address'',
      ''        if Txn.sender == "AAAAAAAAAAAAAAAAAAAAAAAAAAAAAAAAAAAAAAAAAAAAAAAAAAAAAAAAAA":'',
      ''            self.balance = UInt64(0)  # Drain all funds'',
      ''            op.exit(1)  # VULNERABILITY 5: Unsafe exit operation - LOW'']\<close>

definition vulnerable_contract_class :: class_def where
  "vulnerable_contract_class =
     ClassDef ''VulnerableContract'' 10 [Name ''ARC4Contract'']
       [OtherStmt, OtherStmt, OtherStmt, OtherStmt, OtherStmt,
        FunctionDef ''__init__'' 19 [] [''self''],
        FunctionDef ''withdraw'' 27 [Call (Name ''abimethod'')] [''self'', ''amount''],
        FunctionDef ''emergency_withdraw'' 33 [Call (Name ''abimethod'')] [''self'']]"

section \<open>Properties\<close>

subsection \<open>The severity filter\<close>

lemma meets_severity_threshold_order:
  "meets_severity_threshold cfg sev = Inr (spec_order (severity_threshold cfg) \<le> spec_order sev)"
  by (cases "severity_threshold cfg"; cases sev) (simp_all add: meets_severity_threshold_def severity_order_def)

lemma filter_vulnerabilities_filter:
  "filter_vulnerabilities cfg vs =
     Inr (filter (\<lambda>v. spec_order (severity_threshold cfg) \<le> spec_order (severity v)) vs)"
  by (induction vs) (simp_all add: meets_severity_threshold_order)

text \<open>
  C1. The severity filter keeps a finding exactly when the rank of its severity is at least
  the rank of the configured threshold, in the order INFO < LOW < MEDIUM < HIGH < CRITICAL:
  the test \<open>meets_severity_threshold\<close> returns that comparison and never raises, and the
  filter of \<open>scan\<close> returns exactly the findings passing it. Consequently, for two
  configurations whose thresholds are ordered, what the filter keeps at the higher
  threshold is contained in what it keeps at the lower one.
\<close>

theorem C1_severity_filter:
  "meets_severity_threshold cfg sev = Inr (spec_order (severity_threshold cfg) \<le> spec_order sev) \<and>
   filter_vulnerabilities cfg vs =
     Inr (filter (\<lambda>v. spec_order (severity_threshold cfg) \<le> spec_order (severity v)) vs) \<and>
   (spec_order (severity_threshold cfg) \<le> spec_order (severity_threshold cfg') \<longrightarrow>
      (\<exists>kept kept'. filter_vulnerabilities cfg vs = Inr kept \<and>
                     filter_vulnerabilities cfg' vs = Inr kept' \<and> set kept' \<subseteq> set kept))"
  by (auto simp add: meets_severity_threshold_order filter_vulnerabilities_filter)

theorem C1_severity_filter_witness:
  "spec_order (severity_threshold example_config)
     \<le> spec_order (severity_threshold (example_config\<lparr>severity_threshold := HIGH\<rparr>)) \<and>
   (\<exists>kept kept'.
      filter_vulnerabilities example_config
        [example_finding ''builtin'' [''a.py''] MEDIUM, example_finding ''builtin'' [''a.py''] CRITICAL] = Inr kept \<and>
      filter_vulnerabilities (example_config\<lparr>severity_threshold := HIGH\<rparr>)
        [example_finding ''builtin'' [''a.py''] MEDIUM, example_finding ''builtin'' [''a.py''] CRITICAL] = Inr kept' \<and>
      set kept' \<subseteq> set kept)"
proof -
  have h: "spec_order (severity_threshold example_config)
     \<le> spec_order (severity_threshold (example_config\<lparr>severity_threshold := HIGH\<rparr>))"
    by (simp add: example_config_def)
  show ?thesis
    using h C1_severity_filter [of example_config MEDIUM
        "[example_finding ''builtin'' [''a.py''] MEDIUM, example_finding ''builtin'' [''a.py''] CRITICAL]"
        "example_config\<lparr>severity_threshold := HIGH\<rparr>"]
    by blast
qed

subsection \<open>The loops of the orchestrator\<close>

lemma gather_eq:
  "gather self files errs =
     (map (\<lambda>f. Inr (file_findings self f)) files, errs @ concat (map (file_errors self) files))"
  by (induction files arbitrary: errs)
     (auto simp: scan_file_def file_findings_def file_errors_def split: sum.splits)

lemma collect_results_Inr:
  "collect_results (map (\<lambda>f. Inr (g f)) files) vulns errs = (vulns @ concat (map g files), errs)"
  by (induction files arbitrary: vulns) auto

lemma gathered_findings_eq: "gathered_findings self files = concat (map (file_findings self) files)"
  by (simp add: gathered_findings_def gather_eq collect_results_Inr)

lemma scan_files_eq:
  assumes "0 \<le> max_workers (self_config self)"
      and "max_workers (self_config self) = 0 \<longrightarrow> files = []"
  shows "scan_files self files t0 t1 =
     Some (Inr \<lparr>files_scanned = int (length files),
       vulnerabilities = filter (\<lambda>v. spec_order (severity_threshold (self_config self)) \<le> spec_order (severity v))
           (concat (map (file_findings self) files)),
       errors = concat (map (file_errors self) files),
       scan_duration = t1 - t0,
       tools_used = map fst (self_analyzers self)\<rparr>)"
  using assms
  by (auto simp add: scan_files_def gather_eq collect_results_Inr filter_vulnerabilities_filter)

lemma scan_files_returns:
  assumes "scan_files self files t0 t1 = Some (Inr r)"
  shows "0 \<le> max_workers (self_config self) \<and> (max_workers (self_config self) = 0 \<longrightarrow> files = [])"
  using assms by (auto simp: scan_files_def split: if_splits)

lemma run_analyzers_acc:
  "run_analyzers as ft f d acc = acc @ run_analyzers as ft f d []"
proof (induction as arbitrary: acc)
  case Nil
  then show ?case by simp
next
  case (Cons a as)
  obtain n an where a: "a = (n, an)" by (cases a)
  show ?case
  proof (cases "supports_file_type an ft")
    case False
    then show ?thesis using Cons.IH[of acc] by (simp add: a)
  next
    case True
    show ?thesis
    proof (cases "analyze an f d")
      case (Inl e)
      then show ?thesis using True Cons.IH[of acc] by (simp add: a)
    next
      case (Inr vs)
      have "run_analyzers as ft f d (acc @ vs) = acc @ vs @ run_analyzers as ft f d []"
        using Cons.IH[of "acc @ vs"] by simp
      moreover have "run_analyzers as ft f d vs = vs @ run_analyzers as ft f d []"
        using Cons.IH[of vs] .
      ultimately show ?thesis using True Inr by (simp add: a)
    qed
  qed
qed

lemma run_analyzers_append:
  "run_analyzers (as1 @ as2) ft f d acc = run_analyzers as2 ft f d (run_analyzers as1 ft f d acc)"
  by (induction as1 arbitrary: acc) (auto split: sum.splits)

subsection \<open>Fault isolation\<close>

text \<open>
  C3. In a scan of the files \<open>fs1 @ f # fs2\<close> (with a positive number of workers) where
  scanning \<open>f\<close> raises \<open>e\<close> at the file-unit boundary, the scan returns a report; its
  findings are those of scanning \<open>fs1\<close> followed by those of scanning \<open>fs2\<close>, so \<open>f\<close>
  contributes none and the other files keep theirs; and its error list is the errors of
  \<open>fs1\<close>, then the one string \<^verbatim>\<open>Error scanning <f>: <e>\<close>, then the errors of \<open>fs2\<close>.
\<close>

theorem C3_file_fault_isolation:
  assumes "0 < max_workers (self_config self)"
      and "scan_single_file self f = Inl e"
  shows "\<exists>r r1 r2.
      scan_files self (fs1 @ f # fs2) t0 t1 = Some (Inr r) \<and>
      scan_files self fs1 t0 t1 = Some (Inr r1) \<and>
      scan_files self fs2 t0 t1 = Some (Inr r2) \<and>
      vulnerabilities r = vulnerabilities r1 @ vulnerabilities r2 \<and>
      errors r = errors r1 @ [''Error scanning '' @ path_str f @ '': '' @ exn_str e] @ errors r2"
  using assms by (simp add: scan_files_eq file_findings_def file_errors_def)

theorem C3_file_fault_isolation_witness:
  "0 < max_workers (self_config example_scanner) \<and>
   scan_single_file example_scanner [''contracts'', ''broken.py''] = Inl (Exn RuntimeError ''parser crashed'') \<and>
   (\<exists>r r1 r2.
      scan_files example_scanner ([[''contracts'', ''app.teal'']] @ [''contracts'', ''broken.py''] # [[''contracts'', ''vault.py'']]) 0 1 = Some (Inr r) \<and>
      scan_files example_scanner [[''contracts'', ''app.teal'']] 0 1 = Some (Inr r1) \<and>
      scan_files example_scanner [[''contracts'', ''vault.py'']] 0 1 = Some (Inr r2) \<and>
      vulnerabilities r = vulnerabilities r1 @ vulnerabilities r2 \<and>
      errors r = errors r1 @ [''Error scanning '' @ path_str [''contracts'', ''broken.py''] @ '': '' @ exn_str (Exn RuntimeError ''parser crashed'')] @ errors r2)"
proof -
  have h1: "0 < max_workers (self_config example_scanner)"
    by (simp add: example_scanner_def AlgorandScanner_init_def example_config_def)
  have h2: "scan_single_file example_scanner [''contracts'', ''broken.py''] = Inl (Exn RuntimeError ''parser crashed'')"
    by code_simp
  show ?thesis
    using h1 h2 C3_file_fault_isolation [OF h1 h2, of "[[''contracts'', ''app.teal'']]" "[[''contracts'', ''vault.py'']]" 0 1]
    by blast
qed

text \<open>
  C4, as the code has it. When an enabled analyzer that supports the file's type raises in
  \<^verbatim>\<open>analyze\<close>, the exception is caught at the analyzer call: \<open>scan_single_file\<close> returns
  normally, its findings are those of the analyzers before the failing one followed by
  those of the analyzers after it, which therefore still run, the failing analyzer
  contributes none, and \<open>scan_file\<close> leaves the scan's error list as it was (the handler
  only logs).
\<close>

theorem C4_analyzer_fault_isolation:
  assumes "get_file_type f = Some ft" and "self_parsers self ft = Some parser"
      and "parser f = Inr (Some doc)"
      and "self_analyzers self = as1 @ (name, a) # as2"
      and "supports_file_type a ft" and "analyze a f doc = Inl e"
  shows "scan_single_file self f = Inr (run_analyzers as1 ft f doc [] @ run_analyzers as2 ft f doc [])
       \<and> scan_file self f errs = (run_analyzers as1 ft f doc [] @ run_analyzers as2 ft f doc [], errs)"
proof -
  have "run_analyzers (as1 @ (name, a) # as2) ft f doc [] = run_analyzers as1 ft f doc [] @ run_analyzers as2 ft f doc []"
    using assms(5,6) run_analyzers_acc[of as2 ft f doc "run_analyzers as1 ft f doc []"]
    by (simp add: run_analyzers_append)
  then show ?thesis using assms by (simp add: scan_single_file_def scan_file_def)
qed

theorem C4_analyzer_fault_isolation_witness:
  "get_file_type [''contracts'', ''vault.py''] = Some PYTHON \<and>
   self_parsers example_scanner PYTHON = Some (PythonParser example_instances) \<and>
   PythonParser example_instances [''contracts'', ''vault.py''] = Inr (Some ''import pyteal'') \<and>
   self_analyzers example_scanner =
     [(''builtin'', BuiltinAnalyzer example_instances)] @ (''panda'', PandaAnalyzer example_instances)
       # [(''tealer'', Tealer example_instances)] \<and>
   supports_file_type (PandaAnalyzer example_instances) PYTHON \<and>
   analyze (PandaAnalyzer example_instances) [''contracts'', ''vault.py''] ''import pyteal''
     = Inl (Exn RuntimeError ''panda failed'') \<and>
   scan_single_file example_scanner [''contracts'', ''vault.py''] =
     Inr (run_analyzers [(''builtin'', BuiltinAnalyzer example_instances)] PYTHON [''contracts'', ''vault.py''] ''import pyteal'' []
          @ run_analyzers [(''tealer'', Tealer example_instances)] PYTHON [''contracts'', ''vault.py''] ''import pyteal'' []) \<and>
   scan_file example_scanner [''contracts'', ''vault.py''] [] =
     (run_analyzers [(''builtin'', BuiltinAnalyzer example_instances)] PYTHON [''contracts'', ''vault.py''] ''import pyteal'' []
          @ run_analyzers [(''tealer'', Tealer example_instances)] PYTHON [''contracts'', ''vault.py''] ''import pyteal'' [], [])"
proof -
  have h1: "get_file_type [''contracts'', ''vault.py''] = Some PYTHON" by code_simp
  have h2: "self_parsers example_scanner PYTHON = Some (PythonParser example_instances)"
    by (simp add: example_scanner_def AlgorandScanner_init_def)
  have h3: "PythonParser example_instances [''contracts'', ''vault.py''] = Inr (Some ''import pyteal'')"
    by (simp add: example_instances_def path_name_def)
  have h4: "self_analyzers example_scanner =
     [(''builtin'', BuiltinAnalyzer example_instances)] @ (''panda'', PandaAnalyzer example_instances)
       # [(''tealer'', Tealer example_instances)]"
    by (simp add: example_scanner_def AlgorandScanner_init_def example_config_def)
  have h5: "supports_file_type (PandaAnalyzer example_instances) PYTHON"
    by (simp add: example_instances_def)
  have h6: "analyze (PandaAnalyzer example_instances) [''contracts'', ''vault.py''] ''import pyteal''
     = Inl (Exn RuntimeError ''panda failed'')"
    by (simp add: example_instances_def)
  show ?thesis
    using h1 h2 h3 h4 h5 h6 C4_analyzer_fault_isolation [OF h1 h2 h3 h4 h5 h6, of "[]"]
    by simp
qed

text \<open>C4 as stated fails: the analyzer \<^verbatim>\<open>panda\<close> of the example raises for the Python
  file, and the report of the scan has an empty error list.\<close>

theorem C4_error_list_counterexample:
  "analyze (PandaAnalyzer example_instances) [''contracts'', ''vault.py''] ''import pyteal''
     = Inl (Exn RuntimeError ''panda failed'') \<and>
   scan_files example_scanner [[''contracts'', ''vault.py'']] 0 1 =
     Some (Inr \<lparr>files_scanned = 1,
                vulnerabilities = [example_finding ''builtin'' [''contracts'', ''vault.py''] HIGH],
                errors = [], scan_duration = 1,
                tools_used = [''builtin'', ''panda'', ''tealer'']\<rparr>)"
  by (simp add: example_instances_def) code_simp

subsection \<open>File discovery\<close>

lemma finite_scan_directory_loop:
  "finite files \<Longrightarrow> finite (scan_directory_loop fs d patterns files)"
  by (induction patterns arbitrary: files) (auto split: prod.splits option.splits)

lemma finite_collect_targets:
  "finite all_files \<Longrightarrow> finite (collect_targets fs cfg targets all_files)"
  by (induction targets arbitrary: all_files)
     (auto simp: Let_def scan_directory_def finite_scan_directory_loop)

lemma matches_any_iff:
  "matches_any fs file_str name patterns \<longleftrightarrow>
     (\<exists>pattern \<in> set patterns. fnmatch fs file_str pattern \<or> fnmatch fs name pattern)"
  by (induction patterns) auto

lemma set_discover_files:
  "set (discover_files fs cfg) =
     {p \<in> collect_targets fs cfg (target_paths cfg) {}. should_include_file fs cfg p}"
  by (auto simp: discover_files_def finite_collect_targets)

text \<open>
  C5. The result of file discovery is sorted in the order of paths (lexicographic over
  the path components), has no duplicate path, and a path whose full string or bare name
  matches one of the exclude patterns is not in it, whatever the include patterns match.
\<close>

theorem C5_discovery:
  "sorted (discover_files fs cfg) \<and> distinct (discover_files fs cfg) \<and>
   (pattern \<in> set (exclude_patterns cfg) \<and>
    (fnmatch fs (path_str p) pattern \<or> fnmatch fs (path_name p) pattern)
      \<longrightarrow> p \<notin> set (discover_files fs cfg))"
proof -
  have "sorted (discover_files fs cfg)" "distinct (discover_files fs cfg)"
    by (simp_all add: discover_files_def)
  moreover have "pattern \<in> set (exclude_patterns cfg) \<and>
    (fnmatch fs (path_str p) pattern \<or> fnmatch fs (path_name p) pattern)
      \<longrightarrow> p \<notin> set (discover_files fs cfg)"
    by (auto simp: set_discover_files should_include_file_def matches_any_iff Let_def)
  ultimately show ?thesis by blast
qed

theorem C5_discovery_witness:
  "''*/venv/*'' \<in> set (exclude_patterns example_config) \<and>
   fnmatch example_fs (path_str [''contracts'', ''venv'', ''lib.py'']) ''*/venv/*'' \<and>
   fnmatch example_fs (path_name [''contracts'', ''venv'', ''lib.py'']) ''*.py'' \<and>
   [''contracts'', ''venv'', ''lib.py''] \<in> collect_targets example_fs example_config (target_paths example_config) {} \<and>
   [''contracts'', ''venv'', ''lib.py''] \<notin> set (discover_files example_fs example_config) \<and>
   sorted (discover_files example_fs example_config) \<and>
   distinct (discover_files example_fs example_config)"
proof -
  have h1: "''*/venv/*'' \<in> set (exclude_patterns example_config)"
    by (simp add: example_config_def)
  have h2: "fnmatch example_fs (path_str [''contracts'', ''venv'', ''lib.py'']) ''*/venv/*''"
    by code_simp
  have h3: "fnmatch example_fs (path_name [''contracts'', ''venv'', ''lib.py'']) ''*.py''"
    by code_simp
  have h4: "[''contracts'', ''venv'', ''lib.py''] \<in> collect_targets example_fs example_config (target_paths example_config) {}"
    by code_simp
  show ?thesis
    using h1 h2 h3 h4
      C5_discovery [of example_fs example_config "''*/venv/*''" "[''contracts'', ''venv'', ''lib.py'']"]
    by blast
qed

subsection \<open>The report\<close>

text \<open>
  C9, as the code has it. A scan with a positive number of workers returns a report, and
  the \<open>tools_used\<close> of every report a scan returns is the list of the known analyzer
  identifiers that the configuration enables, in the order builtin, panda, tealer,
  quality-assurance, whether or not an analyzer analyzed any file.
\<close>

theorem C9_tools_used:
  "(0 < max_workers cfg \<longrightarrow> (\<exists>r. scan fs (AlgorandScanner_init inst cfg) t0 t1 = Some (Inr r))) \<and>
   (scan fs (AlgorandScanner_init inst cfg) t0 t1 = Some (Inr r) \<longrightarrow>
      tools_used r =
        filter (\<lambda>n. n \<in> set (analyzers cfg)) [''builtin'', ''panda'', ''tealer'', ''quality-assurance''])"
proof -
  have cfg: "self_config (AlgorandScanner_init inst cfg) = cfg"
    by (simp add: AlgorandScanner_init_def)
  have names: "map fst (self_analyzers (AlgorandScanner_init inst cfg)) =
        filter (\<lambda>n. n \<in> set (analyzers cfg)) [''builtin'', ''panda'', ''tealer'', ''quality-assurance'']"
    by (simp add: AlgorandScanner_init_def)
  have a: "0 < max_workers cfg \<longrightarrow> (\<exists>r. scan fs (AlgorandScanner_init inst cfg) t0 t1 = Some (Inr r))"
    by (simp add: scan_def scan_files_eq cfg)
  have b: "scan fs (AlgorandScanner_init inst cfg) t0 t1 = Some (Inr r) \<longrightarrow>
      tools_used r = map fst (self_analyzers (AlgorandScanner_init inst cfg))"
  proof
    assume r: "scan fs (AlgorandScanner_init inst cfg) t0 t1 = Some (Inr r)"
    then have "0 \<le> max_workers cfg \<and> (max_workers cfg = 0 \<longrightarrow> discover_files fs cfg = [])"
      using scan_files_returns[of "AlgorandScanner_init inst cfg" "discover_files fs cfg" t0 t1 r]
      by (simp add: scan_def cfg)
    then show "tools_used r = map fst (self_analyzers (AlgorandScanner_init inst cfg))"
      using r scan_files_eq[of "AlgorandScanner_init inst cfg" "discover_files fs cfg" t0 t1]
      by (auto simp add: scan_def cfg)
  qed
  show ?thesis using a b names by simp
qed

theorem C9_tools_used_witness:
  "0 < max_workers example_config \<and>
   scan example_fs (AlgorandScanner_init example_instances example_config) 0 1 =
     Some (Inr \<lparr>files_scanned = 3,
        vulnerabilities = [example_finding ''builtin'' [''contracts'', ''app.teal''] HIGH,
                           example_finding ''builtin'' [''contracts'', ''vault.py''] HIGH],
        errors = [''Error scanning contracts/broken.py: parser crashed''], scan_duration = 1,
        tools_used = [''builtin'', ''panda'', ''tealer'']\<rparr>) \<and>
   tools_used \<lparr>files_scanned = 3,
        vulnerabilities = [example_finding ''builtin'' [''contracts'', ''app.teal''] HIGH,
                           example_finding ''builtin'' [''contracts'', ''vault.py''] HIGH],
        errors = [''Error scanning contracts/broken.py: parser crashed''], scan_duration = 1,
        tools_used = [''builtin'', ''panda'', ''tealer'']\<rparr> =
     filter (\<lambda>n. n \<in> set (analyzers example_config)) [''builtin'', ''panda'', ''tealer'', ''quality-assurance'']"
proof -
  have h1: "0 < max_workers example_config" by (simp add: example_config_def)
  have h2: "scan example_fs (AlgorandScanner_init example_instances example_config) 0 1 =
     Some (Inr \<lparr>files_scanned = 3,
        vulnerabilities = [example_finding ''builtin'' [''contracts'', ''app.teal''] HIGH,
                           example_finding ''builtin'' [''contracts'', ''vault.py''] HIGH],
        errors = [''Error scanning contracts/broken.py: parser crashed''], scan_duration = 1,
        tools_used = [''builtin'', ''panda'', ''tealer'']\<rparr>)"
    by code_simp
  show ?thesis
    using h1 h2 C9_tools_used [of example_config example_fs example_instances 0 1
        "\<lparr>files_scanned = 3,
        vulnerabilities = [example_finding ''builtin'' [''contracts'', ''app.teal''] HIGH,
                           example_finding ''builtin'' [''contracts'', ''vault.py''] HIGH],
        errors = [''Error scanning contracts/broken.py: parser crashed''], scan_duration = 1,
        tools_used = [''builtin'', ''panda'', ''tealer'']\<rparr>"]
    by blast
qed

text \<open>C9 as stated fails: in the example the Tealer analyzer is enabled and its tool is
  unavailable, so it is called for no file, and \<open>tools_used\<close> still lists it.\<close>

theorem C9_tools_used_counterexample:
  "scan example_fs example_scanner 0 1 =
     Some (Inr \<lparr>files_scanned = 3,
        vulnerabilities = [example_finding ''builtin'' [''contracts'', ''app.teal''] HIGH,
                           example_finding ''builtin'' [''contracts'', ''vault.py''] HIGH],
        errors = [''Error scanning contracts/broken.py: parser crashed''], scan_duration = 1,
        tools_used = [''builtin'', ''panda'', ''tealer'']\<rparr>) \<and>
   analyzers_that_ran example_scanner (discover_files example_fs example_config) = [''builtin'', ''panda'']"
  by code_simp

lemma sum_list_ones: "(\<Sum>v \<leftarrow> xs. (1::int)) = int (length xs)"
  by (induction xs) simp_all

text \<open>
  C10. A scan with a positive number of workers returns a report, and in every report a
  scan returns the list of vulnerabilities is the gathered findings filtered by the
  threshold: every finding in it is at or above the threshold, and the total and the
  counts for CRITICAL, HIGH, MEDIUM and LOW are the numbers of gathered findings of that
  kind that are at or above the threshold.
\<close>

theorem C10_report_is_filtered:
  "(0 < max_workers (self_config self) \<longrightarrow> (\<exists>r. scan fs self t0 t1 = Some (Inr r))) \<and>
   (scan fs self t0 t1 = Some (Inr r) \<longrightarrow>
      vulnerabilities r =
        filter (\<lambda>v. spec_order (severity_threshold (self_config self)) \<le> spec_order (severity v))
          (gathered_findings self (discover_files fs (self_config self))) \<and>
      (\<forall>v \<in> set (vulnerabilities r).
         spec_order (severity_threshold (self_config self)) \<le> spec_order (severity v)) \<and>
      total_vulnerabilities r =
        int (length (filter (\<lambda>v. spec_order (severity_threshold (self_config self)) \<le> spec_order (severity v))
          (gathered_findings self (discover_files fs (self_config self))))) \<and>
      critical_count r =
        int (length (filter (\<lambda>v. severity v = CRITICAL \<and>
                 spec_order (severity_threshold (self_config self)) \<le> spec_order (severity v))
          (gathered_findings self (discover_files fs (self_config self))))) \<and>
      high_count r =
        int (length (filter (\<lambda>v. severity v = HIGH \<and>
                 spec_order (severity_threshold (self_config self)) \<le> spec_order (severity v))
          (gathered_findings self (discover_files fs (self_config self))))) \<and>
      medium_count r =
        int (length (filter (\<lambda>v. severity v = MEDIUM \<and>
                 spec_order (severity_threshold (self_config self)) \<le> spec_order (severity v))
          (gathered_findings self (discover_files fs (self_config self))))) \<and>
      low_count r =
        int (length (filter (\<lambda>v. severity v = LOW \<and>
                 spec_order (severity_threshold (self_config self)) \<le> spec_order (severity v))
          (gathered_findings self (discover_files fs (self_config self))))))"
proof -
  let ?files = "discover_files fs (self_config self)"
  let ?keep = "\<lambda>v. spec_order (severity_threshold (self_config self)) \<le> spec_order (severity v)"
  have a: "0 < max_workers (self_config self) \<longrightarrow> (\<exists>r. scan fs self t0 t1 = Some (Inr r))"
    by (simp add: scan_def scan_files_eq)
  have b: "vulnerabilities r = filter ?keep (gathered_findings self ?files)"
    if r: "scan fs self t0 t1 = Some (Inr r)"
  proof -
    have "0 \<le> max_workers (self_config self) \<and> (max_workers (self_config self) = 0 \<longrightarrow> ?files = [])"
      using r scan_files_returns[of self ?files t0 t1 r] by (simp add: scan_def)
    then show ?thesis
      using r scan_files_eq[of self ?files t0 t1]
      by (auto simp add: scan_def gathered_findings_eq)
  qed
  have c: "(\<forall>v \<in> set (vulnerabilities r). ?keep v) \<and>
      total_vulnerabilities r = int (length (filter ?keep (gathered_findings self ?files))) \<and>
      critical_count r = int (length (filter (\<lambda>v. severity v = CRITICAL \<and> ?keep v) (gathered_findings self ?files))) \<and>
      high_count r = int (length (filter (\<lambda>v. severity v = HIGH \<and> ?keep v) (gathered_findings self ?files))) \<and>
      medium_count r = int (length (filter (\<lambda>v. severity v = MEDIUM \<and> ?keep v) (gathered_findings self ?files))) \<and>
      low_count r = int (length (filter (\<lambda>v. severity v = LOW \<and> ?keep v) (gathered_findings self ?files)))"
    if r: "scan fs self t0 t1 = Some (Inr r)"
    using b[OF r]
    by (simp add: total_vulnerabilities_def critical_count_def high_count_def medium_count_def
        low_count_def sum_list_ones conj_commute)
  show ?thesis using a b c by blast
qed

theorem C10_report_is_filtered_witness:
  "0 < max_workers (self_config example_scanner) \<and>
   scan example_fs example_scanner 0 1 = Some (Inr example_report) \<and>
   vulnerabilities example_report =
     filter (\<lambda>v. spec_order (severity_threshold (self_config example_scanner)) \<le> spec_order (severity v))
       (gathered_findings example_scanner (discover_files example_fs (self_config example_scanner))) \<and>
   list_all (\<lambda>v. spec_order (severity_threshold (self_config example_scanner)) \<le> spec_order (severity v))
     (vulnerabilities example_report) \<and>
   high_count example_report =
     int (length (filter (\<lambda>v. severity v = HIGH \<and>
            spec_order (severity_threshold (self_config example_scanner)) \<le> spec_order (severity v))
       (gathered_findings example_scanner (discover_files example_fs (self_config example_scanner)))))"
proof -
  have h1: "0 < max_workers (self_config example_scanner)"
    by (simp add: example_scanner_def AlgorandScanner_init_def example_config_def)
  have h2: "scan example_fs example_scanner 0 1 = Some (Inr example_report)"
    by code_simp
  have all: "\<forall>v \<in> set (vulnerabilities example_report).
      spec_order (severity_threshold (self_config example_scanner)) \<le> spec_order (severity v)"
    using h2 C10_report_is_filtered [of example_scanner example_fs 0 1 example_report] by blast
  have h3: "list_all (\<lambda>v. spec_order (severity_threshold (self_config example_scanner)) \<le> spec_order (severity v))
     (vulnerabilities example_report)"
    using all by (simp only: list_all_iff)
  show ?thesis
    using h1 h2 h3 C10_report_is_filtered [of example_scanner example_fs 0 1 example_report]
    by blast
qed

subsection \<open>The access-control rules\<close>











lemma line_teal_finding [simp]:
  "line (teal_missing_access_control file_path i row) = i"
  by (simp add: teal_missing_access_control_def create_vulnerability_def)




text \<open>
  C7 at the repository's own test contract. The method \<^verbatim>\<open>withdraw\<close> of
  \<^verbatim>\<open>VulnerableContract\<close> (line 27) is decorated with \<^verbatim>\<open>@abimethod()\<close> and is extracted as an
  ABI method; its body (lines 28 to 30) has no sender or creator check. The rule looks at
  the eleven lines from line 27 on, finds the comparison with \<^verbatim>\<open>Txn.sender\<close> in line 36,
  which belongs to the next method, and reports nothing.
\<close>

theorem C7_fixture_withdraw_unreported:
  "extract_contracts [vulnerable_contract_class] =
     [\<lparr>contract_name = ''VulnerableContract'', contract_line = 10, bases = [''ARC4Contract''],
       methods =
         [\<lparr>method_name = ''__init__'', method_line = 19, decorators = [],
            method_args = [''self''], is_abi_method = False\<rparr>,
          \<lparr>method_name = ''withdraw'', method_line = 27, decorators = [''abimethod''],
            method_args = [''self'', ''amount''], is_abi_method = True\<rparr>,
          \<lparr>method_name = ''emergency_withdraw'', method_line = 33, decorators = [''abimethod''],
            method_args = [''self''], is_abi_method = True\<rparr>]\<rparr>] \<and>
   \<not> re_access_control (vulnerable_contract_lines ! 27) \<and>
   \<not> re_access_control (vulnerable_contract_lines ! 28) \<and>
   \<not> re_access_control (vulnerable_contract_lines ! 29) \<and>
   re_access_control (vulnerable_contract_lines ! 35) \<and>
   check_missing_access_control_python [''test_contracts'', ''vulnerable_contract.py'']
     vulnerable_contract_lines (extract_contracts [vulnerable_contract_class]) = []"
  by code_simp

subsection \<open>The parsers\<close>

text \<open>
  C2. Whatever reading the file, parsing it and extracting from it do, including raising
  on an invalid encoding or on a syntax error, the \<^verbatim>\<open>parse\<close> of each of the three parsers
  returns normally, with a document or with \<^verbatim>\<open>None\<close>; when reading the file raises, or
  when \<^verbatim>\<open>ast.parse\<close> raises, the result is \<^verbatim>\<open>None\<close>.
\<close>

theorem C2_parse_never_raises:
  "(\<exists>result. PythonParser_parse psteps file_path = Inr result) \<and>
   (\<exists>result. TealParser_parse tsteps file_path = Inr result) \<and>
   (\<exists>result. TypeScriptParser_parse jsteps file_path = Inr result) \<and>
   (py_read_file psteps file_path = Inl e \<longrightarrow> PythonParser_parse psteps file_path = Inr None) \<and>
   (py_read_file psteps file_path = Inr content \<and> ast_parse psteps content (path_str file_path) = Inl e
      \<longrightarrow> PythonParser_parse psteps file_path = Inr None) \<and>
   (read_file tsteps file_path = Inl e \<longrightarrow> TealParser_parse tsteps file_path = Inr None) \<and>
   (read_file jsteps file_path = Inl e \<longrightarrow> TypeScriptParser_parse jsteps file_path = Inr None)"
  by (auto simp: PythonParser_parse_def TealParser_parse_def TypeScriptParser_parse_def then_do_def
           split: sum.splits)

theorem C2_parse_never_raises_witness:
  "py_read_file example_python_steps [''latin1.py''] = Inl (Exn UnicodeDecodeError ''invalid start byte'') \<and>
   PythonParser_parse example_python_steps [''latin1.py''] = Inr None \<and>
   py_read_file example_python_steps [''broken.py''] = Inr ''def withdraw(:'' \<and>
   ast_parse example_python_steps ''def withdraw(:'' (path_str [''broken.py''])
     = Inl (Exn SyntaxError ''invalid syntax'') \<and>
   PythonParser_parse example_python_steps [''broken.py''] = Inr None \<and>
   read_file example_text_steps [''latin1.py''] = Inl (Exn UnicodeDecodeError ''invalid start byte'') \<and>
   TealParser_parse example_text_steps [''latin1.py''] = Inr None \<and>
   TypeScriptParser_parse example_text_steps [''latin1.py''] = Inr None"
proof -
  have h1: "py_read_file example_python_steps [''latin1.py''] = Inl (Exn UnicodeDecodeError ''invalid start byte'')"
    by (simp add: example_python_steps_def path_name_def)
  have h2: "read_file example_text_steps [''latin1.py''] = Inl (Exn UnicodeDecodeError ''invalid start byte'')"
    by (simp add: example_text_steps_def)
  have h3: "py_read_file example_python_steps [''broken.py''] = Inr ''def withdraw(:''"
    by (simp add: example_python_steps_def path_name_def)
  have h4: "ast_parse example_python_steps ''def withdraw(:'' (path_str [''broken.py''])
     = Inl (Exn SyntaxError ''invalid syntax'')"
    by (simp add: example_python_steps_def)
  show ?thesis
    using h1 h2 h3 h4
      C2_parse_never_raises [of example_python_steps "[''latin1.py'']" example_text_steps
        example_text_steps "Exn UnicodeDecodeError ''invalid start byte''" "[]"]
      C2_parse_never_raises [of example_python_steps "[''broken.py'']" example_text_steps
        example_text_steps "Exn SyntaxError ''invalid syntax''" "''def withdraw(:''"]
    by blast
qed

subsection \<open>Configuration\<close>

lemma SeverityLevel_of_value_unknown:
  "s \<notin> set severity_order \<Longrightarrow>
     SeverityLevel_of_value s = Inl (Exn ValueError ([CHR 0x27] @ s @ [CHR 0x27] @ '' is not a valid SeverityLevel''))"
  by (simp add: SeverityLevel_of_value_def severity_order_def)

lemma SeverityLevel_of_value_known:
  "s \<in> set severity_order \<Longrightarrow> \<exists>sev. SeverityLevel_of_value s = Inr sev \<and> SeverityLevel_value sev = s"
  by (auto simp add: SeverityLevel_of_value_def severity_order_def)

lemma SeverityLevel_of_value_Inr:
  "SeverityLevel_of_value s = Inr sev \<Longrightarrow> SeverityLevel_value sev = s"
  by (auto simp add: SeverityLevel_of_value_def split: if_splits)

text \<open>
  C8, as the code has it. A severity threshold that is none of the five level names makes
  \<open>from_dict\<close> fail with a \<^verbatim>\<open>ValueError\<close>, so no configuration and no scanner exist; with
  an absent or known threshold \<open>from_dict\<close> succeeds. The list of analyzers is taken as it
  is, and the scanner built from the configuration has exactly the known analyzers that
  the list names: an unknown identifier is accepted and creates no analyzer.
\<close>

theorem C8_config_validation:
  "(d_severity_threshold data = Some s \<and> s \<notin> set severity_order \<longrightarrow>
      (\<exists>e. from_dict data = Inl e \<and> exn_cls e = ValueError)) \<and>
   (d_severity_threshold data = None \<or> (\<exists>s \<in> set severity_order. d_severity_threshold data = Some s) \<longrightarrow>
      (\<exists>cfg. from_dict data = Inr cfg)) \<and>
   (from_dict data = Inr cfg \<longrightarrow>
      SeverityLevel_value (severity_threshold cfg) = dict_get (d_severity_threshold data) ''LOW'' \<and>
      analyzers cfg = dict_get (d_analyzers data) [''builtin'', ''panda'', ''tealer''] \<and>
      map fst (self_analyzers (AlgorandScanner_init inst cfg)) =
        filter (\<lambda>n. n \<in> set (analyzers cfg)) [''builtin'', ''panda'', ''tealer'', ''quality-assurance''])"
proof -
  have a: "d_severity_threshold data = Some s \<and> s \<notin> set severity_order \<longrightarrow>
      (\<exists>e. from_dict data = Inl e \<and> exn_cls e = ValueError)"
    by (auto simp: from_dict_def dict_get_def SeverityLevel_of_value_unknown)
  have b: "\<exists>cfg. from_dict data = Inr cfg"
    if "d_severity_threshold data = None \<or> (\<exists>s \<in> set severity_order. d_severity_threshold data = Some s)"
  proof -
    have "dict_get (d_severity_threshold data) ''LOW'' \<in> set severity_order"
      using that by (auto simp: dict_get_def severity_order_def)
    then obtain sev where "SeverityLevel_of_value (dict_get (d_severity_threshold data) ''LOW'') = Inr sev"
      using SeverityLevel_of_value_known by blast
    then show ?thesis by (simp add: from_dict_def)
  qed
  have c: "SeverityLevel_value (severity_threshold cfg) = dict_get (d_severity_threshold data) ''LOW'' \<and>
      analyzers cfg = dict_get (d_analyzers data) [''builtin'', ''panda'', ''tealer'']"
    if "from_dict data = Inr cfg"
    using that by (auto simp: from_dict_def split: sum.splits dest: SeverityLevel_of_value_Inr)
  have d: "map fst (self_analyzers (AlgorandScanner_init inst cfg)) =
        filter (\<lambda>n. n \<in> set (analyzers cfg)) [''builtin'', ''panda'', ''tealer'', ''quality-assurance'']"
    by (simp add: AlgorandScanner_init_def)
  show ?thesis using a b c d by blast
qed

theorem C8_config_validation_witness:
  "d_severity_threshold (example_data\<lparr>d_severity_threshold := Some ''SEVERE''\<rparr>) = Some ''SEVERE'' \<and>
   ''SEVERE'' \<notin> set severity_order \<and>
   (\<exists>e. from_dict (example_data\<lparr>d_severity_threshold := Some ''SEVERE''\<rparr>) = Inl e \<and> exn_cls e = ValueError) \<and>
   (\<exists>s \<in> set severity_order. d_severity_threshold example_data = Some s) \<and>
   from_dict example_data = Inr example_loaded \<and>
   map fst (self_analyzers (AlgorandScanner_init example_instances example_loaded)) =
     filter (\<lambda>n. n \<in> set (analyzers example_loaded)) [''builtin'', ''panda'', ''tealer'', ''quality-assurance'']"
proof -
  have h1: "d_severity_threshold (example_data\<lparr>d_severity_threshold := Some ''SEVERE''\<rparr>) = Some ''SEVERE''"
    by simp
  have h2: "''SEVERE'' \<notin> set severity_order"
    by (simp add: severity_order_def)
  have h3: "\<exists>s \<in> set severity_order. d_severity_threshold example_data = Some s"
    by (simp add: severity_order_def example_data_def)
  have h4: "from_dict example_data = Inr example_loaded"
    by (simp add: from_dict_def example_data_def example_loaded_def dict_get_def SeverityLevel_of_value_def)
  show ?thesis
    using h1 h2 h3 h4
      C8_config_validation [of "example_data\<lparr>d_severity_threshold := Some ''SEVERE''\<rparr>" "''SEVERE''"
         example_loaded example_instances]
      C8_config_validation [of example_data "''HIGH''" example_loaded example_instances]
    by blast
qed

text \<open>C8 as stated fails for analyzers: the dictionary names the unknown analyzer
  \<^verbatim>\<open>slither\<close>, the configuration is built, and the scan runs and returns its report.\<close>

theorem C8_unknown_analyzer_counterexample:
  "d_analyzers example_data = Some [''slither'', ''builtin''] \<and>
   from_dict example_data = Inr example_loaded \<and>
   scan example_fs (AlgorandScanner_init example_instances example_loaded) 0 1 =
     Some (Inr \<lparr>files_scanned = 3,
        vulnerabilities = [example_finding ''builtin'' [''contracts'', ''app.teal''] HIGH,
                           example_finding ''builtin'' [''contracts'', ''vault.py''] HIGH],
        errors = [''Error scanning contracts/broken.py: parser crashed''], scan_duration = 1,
        tools_used = [''builtin'']\<rparr>)"
  by code_simp

end
